theory Spec2Isabelle
  imports Main "HOL-Library.Word"
begin

section \<open>JavaScript values\<close>

text \<open>
  A JavaScript string is a sequence of UTF-16 code units. The two glyphs the handler
  substitutes (U+53F0 and U+81FA), the degree sign (U+00B0) and the characters of the
  404 message all lie in the Basic Multilingual Plane, so each is one code unit.
\<close>

type_synonym jschar = "16 word"
type_synonym jsstring = "jschar list"

definition ascii :: "string \<Rightarrow> jsstring" where
  "ascii s = map of_char s"

text \<open>
  The values the handler passes on: what axios delivers as the parsed body of an
  answer, and the object literals the handler builds and hands to \<open>res.json\<close>. The
  handler never computes with a number, so the carrier of numbers stays a parameter: it
  stands for whatever \<open>JSON.parse\<close> yields, the infinities of a literal out of range
  included.
\<close>

datatype 'n json =
    JNull
  | JBool bool
  | JNum 'n
  | JStr jsstring
  | JArr "'n json list"
  | JObj "(jsstring \<times> 'n json) list"

section \<open>Data model\<close>

text \<open>
  The upstream payload (\<open>response.data.records\<close>) and the object the handler builds.
  A time slot and a forecast period both have \<open>startTime\<close> and \<open>endTime\<close>; the two
  records extend a common one so that the field names of the source serve for both.
\<close>

record Period =
  startTime :: jsstring
  endTime :: jsstring

record Parameter =
  parameterName :: jsstring

record TimeSlot = Period +
  parameter :: Parameter

record WeatherElement =
  elementName :: jsstring
  time :: "TimeSlot list"

record RawLocationForecast =
  locationName :: jsstring
  weatherElement :: "WeatherElement list"

record Records =
  datasetDescription :: jsstring
  location :: "RawLocationForecast list"

record response_data =
  records :: Records

record ForecastPeriod = Period +
  weather :: jsstring
  rain :: jsstring
  minTemp :: jsstring
  maxTemp :: jsstring
  comfort :: jsstring
  windSpeed :: jsstring

record NormalizedForecast =
  city :: jsstring
  updateTime :: jsstring
  forecasts :: "ForecastPeriod list"

section \<open>The HTTP client, errors and the reply\<close>

text \<open>
  An axios response carries a status and the parsed body: typed for the answer the
  handler reads, any JSON value for the body of an upstream error.
\<close>

record 'd axios_response =
  status :: nat
  data :: 'd

text \<open>
  What the \<open>try\<close> block can throw: the engine's TypeError for reading a property of
  \<open>undefined\<close> (the constructor holds the property's name), and the rejection of
  \<open>axios.get\<close>, with its message and, when the upstream answered, its response.
\<close>

datatype 'n js_error =
    TypeError jsstring
  | AxiosError jsstring "'n json axios_response option"

record axios_params =
  Authorization :: "jsstring option"
  locationName_param :: jsstring

record axios_request =
  url :: jsstring
  params :: axios_params

text \<open>
  What the handler hands to Express on \<open>res\<close>: the argument of \<open>res.status\<close>, which
  Express stores in \<open>res.statusCode\<close> (its default, 200, when the handler does not call
  \<open>res.status\<close>), and the argument of \<open>res.json\<close>. The handler ends there. What
  Express and Node then put on the wire is not code of this repository and is not
  modelled: \<open>res.json\<close> writes the argument with \<open>JSON.stringify\<close>, which turns a
  number that is not finite into \<open>null\<close>, and no body is sent at the statuses 204 and
  304. In the statements below, "the handler answers with status \<open>s\<close> and object
  \<open>v\<close>" stands for the calls \<open>res.status(s).json(v)\<close>.
\<close>

record 'n res_calls =
  statusCode :: nat
  json_arg :: "'n json"

text \<open>
  The world one request runs in: the API key read from the environment at start-up
  (absent when the variable is not set), the HTTP client, and the wording the engine
  gives to the message of "cannot read property p of undefined".
\<close>

record 'n runtime =
  CWA_API_KEY :: "jsstring option"
  axios_get :: "axios_request \<Rightarrow> 'n js_error + response_data axios_response"
  undefined_read :: "jsstring \<Rightarrow> jsstring"

text \<open>
  The outcome of one run of the handler: the requests it made through the client, in
  order, and what it handed to \<open>res\<close>.
\<close>

record 'n outcome =
  outbound :: "axios_request list"
  reply :: "'n res_calls"

fun message :: "(jsstring \<Rightarrow> jsstring) \<Rightarrow> 'n js_error \<Rightarrow> jsstring" where
  "message wording (TypeError prop) = wording prop"
| "message wording (AxiosError m r) = m"

fun response :: "'n js_error \<Rightarrow> 'n json axios_response option" where
  "response (TypeError prop) = None"
| "response (AxiosError m r) = r"

definition and_then :: "'e + 'a \<Rightarrow> ('a \<Rightarrow> 'e + 'b) \<Rightarrow> 'e + 'b" where
  "and_then r k = (case r of Inl e \<Rightarrow> Inl e | Inr x \<Rightarrow> k x)"

text \<open>
  \<open>xs[i].prop\<close>: an array read out of range gives \<open>undefined\<close>, and reading a
  property of \<open>undefined\<close> throws. The result is the element the property is read from.
\<close>

definition member_of :: "'a list \<Rightarrow> nat \<Rightarrow> jsstring \<Rightarrow> 'n js_error + 'a" where
  "member_of xs i prop = (if i < length xs then Inr (xs ! i) else Inl (TypeError prop))"

section \<open>Locality substitution (server.js, lines 25 to 27)\<close>

text \<open>
  \<open>String.prototype.replace\<close> with a global regular expression that is one literal
  code unit \<open>p\<close>, and a replacement \<open>r\<close> without \<open>$\<close> patterns.
\<close>

fun replace_g :: "jschar \<Rightarrow> jsstring \<Rightarrow> jsstring \<Rightarrow> jsstring" where
  "replace_g p r [] = []"
| "replace_g p r (c # cs) = (if c = p then r @ replace_g p r cs else c # replace_g p r cs)"

definition substituted_city :: "jsstring \<Rightarrow> jsstring" where
  "substituted_city req_city =
     (if req_city \<noteq> [] then replace_g 0x53F0 [0x81FA] req_city else req_city)"

section \<open>The normalizer (server.js, lines 50 to 84)\<close>

text \<open>The object literal of lines 60 to 69.\<close>

definition forecast_seed :: "WeatherElement list \<Rightarrow> nat \<Rightarrow> 'n js_error + ForecastPeriod" where
  "forecast_seed weatherElements i =
     and_then (member_of weatherElements 0 (ascii ''time'')) (\<lambda>first.
     and_then (member_of (time first) i (ascii ''startTime'')) (\<lambda>slot_s.
     and_then (member_of (time first) i (ascii ''endTime'')) (\<lambda>slot_e.
       Inr \<lparr> startTime = startTime slot_s, endTime = endTime slot_e,
             weather = [], rain = [], minTemp = [], maxTemp = [],
             comfort = [], windSpeed = [] \<rparr>)))"

text \<open>The \<open>switch\<close> of lines 73 to 80; a name outside the six cases changes nothing.\<close>

definition switch_elementName :: "WeatherElement \<Rightarrow> Parameter \<Rightarrow> ForecastPeriod \<Rightarrow> ForecastPeriod" where
  "switch_elementName element val forecast =
     (if elementName element = ascii ''Wx'' then forecast\<lparr>weather := parameterName val\<rparr>
      else if elementName element = ascii ''PoP'' then forecast\<lparr>rain := parameterName val @ ascii ''%''\<rparr>
      else if elementName element = ascii ''MinT'' then forecast\<lparr>minTemp := parameterName val @ [0xB0, 0x43]\<rparr>
      else if elementName element = ascii ''MaxT'' then forecast\<lparr>maxTemp := parameterName val @ [0xB0, 0x43]\<rparr>
      else if elementName element = ascii ''CI'' then forecast\<lparr>comfort := parameterName val\<rparr>
      else if elementName element = ascii ''WS'' then forecast\<lparr>windSpeed := parameterName val\<rparr>
      else forecast)"

text \<open>
  The callback of \<open>forEach\<close> (lines 71 to 81): \<open>element.time[i].parameter\<close> is read
  before the \<open>switch\<close>, for every element, whatever its name.
\<close>

definition callback :: "nat \<Rightarrow> ForecastPeriod \<Rightarrow> WeatherElement \<Rightarrow> 'n js_error + ForecastPeriod" where
  "callback i forecast element =
     and_then (member_of (time element) i (ascii ''parameter'')) (\<lambda>slot.
       Inr (switch_elementName element (parameter slot) forecast))"

fun forEach :: "WeatherElement list \<Rightarrow> nat \<Rightarrow> ForecastPeriod \<Rightarrow> 'n js_error + ForecastPeriod" where
  "forEach [] i forecast = Inr forecast"
| "forEach (element # rest) i forecast =
     and_then (callback i forecast element) (forEach rest i)"

text \<open>The \<open>for\<close> loop of lines 59 to 84, pushing one record per index.\<close>

function for_loop ::
  "WeatherElement list \<Rightarrow> nat \<Rightarrow> nat \<Rightarrow> ForecastPeriod list \<Rightarrow> 'n js_error + ForecastPeriod list" where
  "for_loop weatherElements timeCount i acc =
     (if i < timeCount then
        and_then (forecast_seed weatherElements i) (\<lambda>seed.
        and_then (forEach weatherElements i seed) (\<lambda>forecast.
          for_loop weatherElements timeCount (i + 1) (acc @ [forecast])))
      else Inr acc)"
  by pat_completeness auto
termination
  by (relation "measure (\<lambda>(weatherElements, timeCount, i, acc). timeCount - i)") auto

declare for_loop.simps [simp del]

definition ForecastNormalizer ::
  "response_data axios_response \<Rightarrow> RawLocationForecast \<Rightarrow> 'n js_error + NormalizedForecast" where
  "ForecastNormalizer resp locationData =
     (let weatherData = \<lparr> city = locationName locationData,
                          updateTime = datasetDescription (records (data resp)),
                          forecasts = [] \<rparr>;
          weatherElements = weatherElement locationData
      in and_then (member_of weatherElements 0 (ascii ''time'')) (\<lambda>first.
         and_then (for_loop weatherElements (length (time first)) 0 (forecasts weatherData)) (\<lambda>fs.
           Inr (weatherData\<lparr>forecasts := fs\<rparr>))))"

section \<open>The handler (server.js, lines 21 to 101)\<close>

definition forecast_json :: "ForecastPeriod \<Rightarrow> 'n json" where
  "forecast_json f = JObj
     [(ascii ''startTime'', JStr (startTime f)), (ascii ''endTime'', JStr (endTime f)),
      (ascii ''weather'', JStr (weather f)), (ascii ''rain'', JStr (rain f)),
      (ascii ''minTemp'', JStr (minTemp f)), (ascii ''maxTemp'', JStr (maxTemp f)),
      (ascii ''comfort'', JStr (comfort f)), (ascii ''windSpeed'', JStr (windSpeed f))]"

definition weatherData_json :: "NormalizedForecast \<Rightarrow> 'n json" where
  "weatherData_json w = JObj
     [(ascii ''city'', JStr (city w)), (ascii ''updateTime'', JStr (updateTime w)),
      (ascii ''forecasts'', JArr (map forecast_json (forecasts w)))]"

definition CWA_API_BASE_URL :: jsstring where
  "CWA_API_BASE_URL = ascii ''https://opendata.cwa.gov.tw/api''"

definition outbound_request :: "'n runtime \<Rightarrow> jsstring \<Rightarrow> axios_request" where
  "outbound_request rt city_var =
     \<lparr> url = CWA_API_BASE_URL @ ascii ''/v1/rest/datastore/F-C0032-001'',
       params = \<lparr> Authorization = CWA_API_KEY rt, locationName_param = city_var \<rparr> \<rparr>"

text \<open>
  The message of the 404 reply (line 45): the template literal around
  \<open>req.params.city\<close>, written in code units.
\<close>

definition not_found_message :: "jsstring \<Rightarrow> jsstring" where
  "not_found_message req_city =
     [0x67E5, 0x7121, 0x20, 0x27] @ req_city @
     [0x27, 0x20, 0x8CC7, 0x6599, 0xFF0C, 0x8ACB, 0x78BA, 0x8A8D, 0x7E23, 0x5E02,
      0x540D, 0x7A31, 0x662F, 0x5426, 0x6B63, 0x78BA, 0x3002]"

text \<open>
  The \<open>try\<close> block (lines 30 to 89). \<open>req_city\<close> is \<open>req.params.city\<close>, \<open>city_var\<close> the
  local variable \<open>city\<close> after the substitution. Where the handler calls \<open>res.json\<close> without \<open>res.status\<close>, \<open>statusCode\<close> is
  Express's default, 200.
\<close>

definition try_block :: "'n runtime \<Rightarrow> jsstring \<Rightarrow> jsstring \<Rightarrow> 'n js_error + 'n res_calls" where
  "try_block rt req_city city_var =
     and_then (axios_get rt (outbound_request rt city_var)) (\<lambda>resp.
       case location (records (data resp)) of
         [] \<Rightarrow> Inr \<lparr> statusCode = 404,
                     json_arg = JObj [(ascii ''success'', JBool False),
                                  (ascii ''message'', JStr (not_found_message req_city))] \<rparr>
       | locationData # others \<Rightarrow>
           and_then (ForecastNormalizer resp locationData) (\<lambda>weatherData.
             Inr \<lparr> statusCode = 200,
                   json_arg = JObj [(ascii ''success'', JBool True),
                                (ascii ''data'', weatherData_json weatherData)] \<rparr>))"

text \<open>
  The \<open>catch\<close> block (lines 91 to 100); the logging of line 92 is not modelled. Line 96
  is \<open>res.status(error.response.status).json({ error: error.response.data })\<close>: both
  arguments are recorded as the handler passes them, whatever the status and the data.
\<close>

definition catch_block :: "'n runtime \<Rightarrow> 'n js_error \<Rightarrow> 'n res_calls" where
  "catch_block rt err =
     (case response err of
        Some r \<Rightarrow> \<lparr> statusCode = status r, json_arg = JObj [(ascii ''error'', data r)] \<rparr>
      | None \<Rightarrow> \<lparr> statusCode = 500,
                   json_arg = JObj [(ascii ''error'', JStr (message (undefined_read rt) err))] \<rparr>)"

definition getWeatherByCity :: "'n runtime \<Rightarrow> jsstring \<Rightarrow> 'n outcome" where
  "getWeatherByCity rt req_city =
     (let city_var = substituted_city req_city
      in \<lparr> outbound = [outbound_request rt city_var],
           reply = (case try_block rt req_city city_var of
                      Inr sent \<Rightarrow> sent
                    | Inl err \<Rightarrow> catch_block rt err) \<rparr>)"

section \<open>Vocabulary of the statements\<close>

text \<open>The last element of the sequence that has a given name, if there is one.\<close>

definition last_named :: "jsstring \<Rightarrow> WeatherElement list \<Rightarrow> WeatherElement option" where
  "last_named nm wes = find (\<lambda>e. elementName e = nm) (rev wes)"

text \<open>\<open>element.time[i].parameter.parameterName\<close>, for an index in range.\<close>

definition slot_value :: "WeatherElement \<Rightarrow> nat \<Rightarrow> jsstring" where
  "slot_value e i = parameterName (parameter (time e ! i))"

text \<open>One call of the callback when the slot exists, and the record the loop body builds.\<close>

definition step :: "nat \<Rightarrow> WeatherElement \<Rightarrow> ForecastPeriod \<Rightarrow> ForecastPeriod" where
  "step i element forecast = switch_elementName element (parameter (time element ! i)) forecast"

definition seed_value :: "WeatherElement list \<Rightarrow> nat \<Rightarrow> ForecastPeriod" where
  "seed_value wes i =
     \<lparr> startTime = startTime (time (hd wes) ! i), endTime = endTime (time (hd wes) ! i),
       weather = [], rain = [], minTemp = [], maxTemp = [], comfort = [], windSpeed = [] \<rparr>"

definition period_value :: "WeatherElement list \<Rightarrow> nat \<Rightarrow> ForecastPeriod" where
  "period_value wes i = fold (step i) wes (seed_value wes i)"

text \<open>Index \<open>i\<close> can be read in the first element and in every element.\<close>

definition readable :: "WeatherElement list \<Rightarrow> nat \<Rightarrow> bool" where
  "readable wes i \<longleftrightarrow>
     wes \<noteq> [] \<and> i < length (time (hd wes)) \<and> (\<forall>e \<in> set wes. i < length (time e))"

text \<open>The body of the \<open>for\<close> loop up to the \<open>push\<close>.\<close>

definition loop_body :: "WeatherElement list \<Rightarrow> nat \<Rightarrow> 'n js_error + ForecastPeriod" where
  "loop_body wes i = and_then (forecast_seed wes i) (forEach wes i)"

text \<open>
  The fixed mapping of the specification: element name, output field, suffix appended
  to the parameter value.
\<close>

definition spec_mapping_table :: "(jsstring \<times> (ForecastPeriod \<Rightarrow> jsstring) \<times> jsstring) list" where
  "spec_mapping_table =
     [(ascii ''Wx'', weather, []), (ascii ''PoP'', rain, ascii ''%''),
      (ascii ''MinT'', minTemp, [0xB0, 0x43]), (ascii ''MaxT'', maxTemp, [0xB0, 0x43]),
      (ascii ''CI'', comfort, []), (ascii ''WS'', windSpeed, [])]"

section \<open>Example inputs\<close>

text \<open>
  Two forecast periods for one location, a client that knows that location only, and
  the wording V8 gives to a read from \<open>undefined\<close>.
\<close>

definition slot :: "string \<Rightarrow> string \<Rightarrow> string \<Rightarrow> TimeSlot" where
  "slot s e v = \<lparr> startTime = ascii s, endTime = ascii e, parameter = \<lparr> parameterName = ascii v \<rparr> \<rparr>"

definition ex_Wx :: WeatherElement where
  "ex_Wx = \<lparr> elementName = ascii ''Wx'',
             time = [slot ''06:00'' ''18:00'' ''Sunny'', slot ''18:00'' ''06:00'' ''Cloudy''] \<rparr>"

definition ex_PoP :: WeatherElement where
  "ex_PoP = \<lparr> elementName = ascii ''PoP'',
              time = [slot ''06:00'' ''18:00'' ''10'', slot ''18:00'' ''06:00'' ''30''] \<rparr>"

definition ex_UVI :: WeatherElement where
  "ex_UVI = \<lparr> elementName = ascii ''UVI'',
              time = [slot ''06:00'' ''18:00'' ''5'', slot ''18:00'' ''06:00'' ''0''] \<rparr>"

definition ex_location :: "WeatherElement list \<Rightarrow> RawLocationForecast" where
  "ex_location wes = \<lparr> locationName = [0x81FA, 0x5317, 0x5E02], weatherElement = wes \<rparr>"

definition ex_response :: "RawLocationForecast list \<Rightarrow> response_data axios_response" where
  "ex_response locs =
     \<lparr> status = 200,
       data = \<lparr> records = \<lparr> datasetDescription = ascii ''36h forecast'', location = locs \<rparr> \<rparr> \<rparr>"

definition ex_period :: "string \<Rightarrow> string \<Rightarrow> string \<Rightarrow> string \<Rightarrow> ForecastPeriod" where
  "ex_period s e w r =
     \<lparr> startTime = ascii s, endTime = ascii e, weather = ascii w, rain = ascii r,
       minTemp = [], maxTemp = [], comfort = [], windSpeed = [] \<rparr>"

definition ex_Wx_late :: WeatherElement where
  "ex_Wx_late = \<lparr> elementName = ascii ''Wx'',
                  time = [slot ''06:00'' ''18:00'' ''Rainy'', slot ''18:00'' ''06:00'' ''Windy''] \<rparr>"

text \<open>A PoP element whose slots are in another order than those of \<open>ex_Wx\<close>, with one more.\<close>

definition ex_PoP_shifted :: WeatherElement where
  "ex_PoP_shifted = \<lparr> elementName = ascii ''PoP'',
                      time = [slot ''18:00'' ''06:00'' ''30'', slot ''06:00'' ''18:00'' ''10'',
                              slot ''18:00'' ''06:00'' ''50''] \<rparr>"

text \<open>A PoP element with one slot fewer than \<open>ex_Wx\<close>.\<close>

definition ex_PoP_short :: WeatherElement where
  "ex_PoP_short = \<lparr> elementName = ascii ''PoP'', time = [slot ''06:00'' ''18:00'' ''10''] \<rparr>"

definition ex_taipei :: RawLocationForecast where
  "ex_taipei = ex_location [ex_Wx, ex_PoP, ex_UVI]"

definition ex_duplicate :: RawLocationForecast where
  "ex_duplicate = ex_location [ex_Wx, ex_PoP, ex_Wx_late, ex_UVI]"

definition ex_misaligned :: RawLocationForecast where
  "ex_misaligned = ex_location [ex_Wx, ex_PoP_shifted]"

definition ex_short :: RawLocationForecast where
  "ex_short = ex_location [ex_Wx, ex_PoP_short]"

definition ex_no_elements :: RawLocationForecast where
  "ex_no_elements = ex_location []"

definition ex_normalized :: "ForecastPeriod list \<Rightarrow> NormalizedForecast" where
  "ex_normalized fs =
     \<lparr> city = [0x81FA, 0x5317, 0x5E02], updateTime = ascii ''36h forecast'', forecasts = fs \<rparr>"

definition v8_wording :: "jsstring \<Rightarrow> jsstring" where
  "v8_wording prop =
     ascii ''Cannot read properties of undefined (reading '' @ [0x27] @ prop @ [0x27] @ ascii '')''"

definition ex_runtime ::
  "(axios_request \<Rightarrow> nat js_error + response_data axios_response) \<Rightarrow> nat runtime" where
  "ex_runtime client =
     \<lparr> CWA_API_KEY = Some (ascii ''CWA-KEY''), axios_get = client, undefined_read = v8_wording \<rparr>"

text \<open>
  A client that answers with \<open>ex_taipei\<close> for the canonical name (U+81FA U+5317 U+5E02)
  and with an empty \<open>location\<close> array for any other name.
\<close>

definition ex_upstream :: "axios_request \<Rightarrow> nat js_error + response_data axios_response" where
  "ex_upstream rq =
     (if locationName_param (params rq) = [0x81FA, 0x5317, 0x5E02]
      then Inr (ex_response [ex_taipei]) else Inr (ex_response []))"

text \<open>A client whose call is rejected with the upstream's answer to an invalid key.\<close>

definition ex_unauthorized_body :: "nat json" where
  "ex_unauthorized_body =
     JObj [(ascii ''code'', JNum 401), (ascii ''message'', JStr (ascii ''Unauthorized''))]"

definition ex_unauthorized :: "axios_request \<Rightarrow> nat js_error + response_data axios_response" where
  "ex_unauthorized rq =
     Inl (AxiosError (ascii ''Request failed with status code 401'')
            (Some \<lparr> status = 401, data = ex_unauthorized_body \<rparr>))"

section \<open>Basic facts\<close>

lemma and_then_Inr [simp]: "and_then (Inr x) k = k x"
  by (simp add: and_then_def)

lemma and_then_Inl [simp]: "and_then (Inl e) k = Inl e"
  by (simp add: and_then_def)

lemma and_then_eq_Inr: "and_then r k = Inr y \<longleftrightarrow> (\<exists>x. r = Inr x \<and> k x = Inr y)"
  by (cases r) simp_all

lemma member_of_eq_Inr: "member_of xs i p = Inr x \<longleftrightarrow> i < length xs \<and> x = xs ! i"
  by (auto simp: member_of_def)

lemma element_names_distinct:
  "distinct [ascii ''Wx'', ascii ''PoP'', ascii ''MinT'', ascii ''MaxT'', ascii ''CI'', ascii ''WS'']"
  by (simp add: ascii_def)

lemma callback_in_range: "i < length (time e) \<Longrightarrow> callback i f e = Inr (step i e f)"
  by (simp add: callback_def member_of_def step_def)

lemma callback_out_of_range:
  "\<not> i < length (time e) \<Longrightarrow> callback i f e = Inl (TypeError (ascii ''parameter''))"
  by (simp add: callback_def member_of_def)

lemma forEach_in_range:
  "\<forall>e \<in> set wes. i < length (time e) \<Longrightarrow> forEach wes i f = Inr (fold (step i) wes f)"
  by (induction wes arbitrary: f) (simp_all add: callback_in_range)

lemma forEach_out_of_range:
  "\<exists>e \<in> set wes. \<not> i < length (time e) \<Longrightarrow> forEach wes i f = Inl (TypeError (ascii ''parameter''))"
proof (induction wes arbitrary: f)
  case Nil
  then show ?case by simp
next
  case (Cons e wes)
  show ?case
  proof (cases "i < length (time e)")
    case True
    with Cons.prems have "\<exists>e \<in> set wes. \<not> i < length (time e)" by auto
    with Cons.IH True show ?thesis by (simp add: callback_in_range)
  next
    case False
    then show ?thesis by (simp add: callback_out_of_range)
  qed
qed

lemma forEach_eq_Inr:
  "forEach wes i f = Inr g \<longleftrightarrow> (\<forall>e \<in> set wes. i < length (time e)) \<and> g = fold (step i) wes f"
proof (cases "\<forall>e \<in> set wes. i < length (time e)")
  case True
  then show ?thesis by (auto simp: forEach_in_range)
next
  case False
  then have "\<exists>e \<in> set wes. \<not> i < length (time e)" by blast
  then have "forEach wes i f = (Inl (TypeError (ascii ''parameter'')) :: 'a js_error + ForecastPeriod)"
    by (rule forEach_out_of_range)
  with False show ?thesis by simp
qed

lemma last_named_Nil [simp]: "last_named nm [] = None"
  by (simp add: last_named_def)

lemma last_named_snoc [simp]:
  "last_named nm (xs @ [x]) = (if elementName x = nm then Some x else last_named nm xs)"
  by (simp add: last_named_def)

lemma step_times [simp]:
  "startTime (step i e f) = startTime f" "endTime (step i e f) = endTime f"
  by (simp_all add: step_def switch_elementName_def)

lemma fold_step_times [simp]:
  "startTime (fold (step i) wes f) = startTime f" "endTime (fold (step i) wes f) = endTime f"
  by (induction wes arbitrary: f) simp_all

lemma step_weather:
  "weather (step i e f) = (if elementName e = ascii ''Wx'' then slot_value e i else weather f)"
  by (simp add: step_def switch_elementName_def slot_value_def ascii_def)

lemma step_rain:
  "rain (step i e f) = (if elementName e = ascii ''PoP'' then slot_value e i @ ascii ''%'' else rain f)"
  by (simp add: step_def switch_elementName_def slot_value_def ascii_def)

lemma step_minTemp:
  "minTemp (step i e f) =
     (if elementName e = ascii ''MinT'' then slot_value e i @ [0xB0, 0x43] else minTemp f)"
  by (simp add: step_def switch_elementName_def slot_value_def ascii_def)

lemma step_maxTemp:
  "maxTemp (step i e f) =
     (if elementName e = ascii ''MaxT'' then slot_value e i @ [0xB0, 0x43] else maxTemp f)"
  by (simp add: step_def switch_elementName_def slot_value_def ascii_def)

lemma step_comfort:
  "comfort (step i e f) = (if elementName e = ascii ''CI'' then slot_value e i else comfort f)"
  by (simp add: step_def switch_elementName_def slot_value_def ascii_def)

lemma step_windSpeed:
  "windSpeed (step i e f) = (if elementName e = ascii ''WS'' then slot_value e i else windSpeed f)"
  by (simp add: step_def switch_elementName_def slot_value_def ascii_def)

lemma fold_step_weather:
  "weather (fold (step i) wes f) =
     (case last_named (ascii ''Wx'') wes of None \<Rightarrow> weather f | Some e \<Rightarrow> slot_value e i)"
  by (induction wes rule: rev_induct) (simp_all add: step_weather)

lemma fold_step_rain:
  "rain (fold (step i) wes f) =
     (case last_named (ascii ''PoP'') wes of None \<Rightarrow> rain f
      | Some e \<Rightarrow> slot_value e i @ ascii ''%'')"
  by (induction wes rule: rev_induct) (simp_all add: step_rain)

lemma fold_step_minTemp:
  "minTemp (fold (step i) wes f) =
     (case last_named (ascii ''MinT'') wes of None \<Rightarrow> minTemp f
      | Some e \<Rightarrow> slot_value e i @ [0xB0, 0x43])"
  by (induction wes rule: rev_induct) (simp_all add: step_minTemp)

lemma fold_step_maxTemp:
  "maxTemp (fold (step i) wes f) =
     (case last_named (ascii ''MaxT'') wes of None \<Rightarrow> maxTemp f
      | Some e \<Rightarrow> slot_value e i @ [0xB0, 0x43])"
  by (induction wes rule: rev_induct) (simp_all add: step_maxTemp)

lemma fold_step_comfort:
  "comfort (fold (step i) wes f) =
     (case last_named (ascii ''CI'') wes of None \<Rightarrow> comfort f | Some e \<Rightarrow> slot_value e i)"
  by (induction wes rule: rev_induct) (simp_all add: step_comfort)

lemma fold_step_windSpeed:
  "windSpeed (fold (step i) wes f) =
     (case last_named (ascii ''WS'') wes of None \<Rightarrow> windSpeed f | Some e \<Rightarrow> slot_value e i)"
  by (induction wes rule: rev_induct) (simp_all add: step_windSpeed)

lemma forecast_seed_eq_Inr:
  "forecast_seed wes i = Inr s \<longleftrightarrow>
     wes \<noteq> [] \<and> i < length (time (hd wes)) \<and>
     s = \<lparr> startTime = startTime (time (hd wes) ! i), endTime = endTime (time (hd wes) ! i),
           weather = [], rain = [], minTemp = [], maxTemp = [], comfort = [], windSpeed = [] \<rparr>"
  by (cases wes) (auto simp: forecast_seed_def and_then_eq_Inr member_of_eq_Inr)

lemma loop_body_eq_Inr:
  "loop_body wes i = Inr f \<longleftrightarrow> readable wes i \<and> f = period_value wes i"
  by (auto simp: loop_body_def and_then_eq_Inr forecast_seed_eq_Inr forEach_eq_Inr readable_def
      period_value_def seed_value_def)

lemma and_then_assoc:
  "and_then (and_then r k) h = and_then r (\<lambda>x. and_then (k x) h)"
  by (cases r) simp_all

lemma for_loop_unfold:
  "for_loop wes n i acc =
     (if i < n then
        and_then (loop_body wes i) (\<lambda>f. for_loop wes n (Suc i) (acc @ [f]))
      else Inr acc)"
  by (subst for_loop.simps) (simp add: and_then_assoc loop_body_def)

lemma for_loop_eq_Inr:
  "for_loop wes n i acc = Inr fs \<longleftrightarrow>
     (\<forall>j. i \<le> j \<and> j < n \<longrightarrow> readable wes j) \<and> fs = acc @ map (period_value wes) [i..<n]"
proof (induction "n - i" arbitrary: i acc)
  case 0
  then show ?case by (subst for_loop_unfold) auto
next
  case (Suc d)
  then have less: "i < n" and d: "d = n - Suc i" by simp_all
  have range: "(\<forall>j. i \<le> j \<and> j < n \<longrightarrow> readable wes j) \<longleftrightarrow>
      readable wes i \<and> (\<forall>j. Suc i \<le> j \<and> j < n \<longrightarrow> readable wes j)"
    by (metis Suc_leI le_eq_less_or_eq Suc_le_lessD less)
  have upt: "[i..<n] = i # [Suc i..<n]"
    using less by (simp add: upt_conv_Cons)
  show ?case
    by (subst for_loop_unfold)
      (auto simp: less and_then_eq_Inr loop_body_eq_Inr Suc.hyps(1) [OF d] range upt)
qed

lemma readable_upto:
  assumes "wes \<noteq> []"
  shows "(\<forall>j < length (time (hd wes)). readable wes j) \<longleftrightarrow>
     (\<forall>e \<in> set wes. length (time (hd wes)) \<le> length (time e))"
proof
  assume all: "\<forall>j < length (time (hd wes)). readable wes j"
  show "\<forall>e \<in> set wes. length (time (hd wes)) \<le> length (time e)"
  proof (intro ballI, rule ccontr)
    fix e
    assume e: "e \<in> set wes" and "\<not> length (time (hd wes)) \<le> length (time e)"
    then have "length (time e) < length (time (hd wes))" by simp
    with all have "readable wes (length (time e))" by blast
    with e show False by (auto simp: readable_def)
  qed
next
  assume "\<forall>e \<in> set wes. length (time (hd wes)) \<le> length (time e)"
  with assms show "\<forall>j < length (time (hd wes)). readable wes j"
    by (auto simp: readable_def intro: less_le_trans)
qed

lemma ForecastNormalizer_eq_Inr:
  "ForecastNormalizer resp loc = Inr w \<longleftrightarrow>
     weatherElement loc \<noteq> [] \<and>
     (\<forall>e \<in> set (weatherElement loc). length (time (hd (weatherElement loc))) \<le> length (time e)) \<and>
     w = \<lparr> city = locationName loc, updateTime = datasetDescription (records (data resp)),
           forecasts = map (period_value (weatherElement loc))
                         [0..<length (time (hd (weatherElement loc)))] \<rparr>"
proof (cases "weatherElement loc")
  case Nil
  then show ?thesis
    by (simp add: ForecastNormalizer_def member_of_def)
next
  case (Cons e es)
  then have ne: "weatherElement loc \<noteq> []" by simp
  have first: "member_of (weatherElement loc) 0 p = Inr (hd (weatherElement loc))" for p
    using Cons by (simp add: member_of_def)
  show ?thesis
    unfolding ForecastNormalizer_def Let_def first and_then_Inr
    by (auto simp: and_then_eq_Inr for_loop_eq_Inr readable_upto [OF ne] ne)
qed

lemma seed_value_fields [simp]:
  "weather (seed_value wes i) = []" "rain (seed_value wes i) = []"
  "minTemp (seed_value wes i) = []" "maxTemp (seed_value wes i) = []"
  "comfort (seed_value wes i) = []" "windSpeed (seed_value wes i) = []"
  by (simp_all add: seed_value_def)

lemma period_value_fields:
  "\<forall>(nm, field, suffix) \<in> set spec_mapping_table.
     field (period_value wes i) =
       (case last_named nm wes of None \<Rightarrow> [] | Some e \<Rightarrow> slot_value e i @ suffix)"
  unfolding spec_mapping_table_def period_value_def
  by (simp add: fold_step_weather fold_step_rain fold_step_minTemp fold_step_maxTemp
      fold_step_comfort fold_step_windSpeed cong: option.case_cong)

lemma period_value_times:
  "startTime (period_value wes i) = startTime (time (hd wes) ! i)"
  "endTime (period_value wes i) = endTime (time (hd wes) ! i)"
  by (simp_all add: period_value_def seed_value_def)

lemma last_named_decomp:
  "\<forall>y \<in> set ys. elementName y \<noteq> elementName e \<Longrightarrow> last_named (elementName e) (xs @ e # ys) = Some e"
proof (induction ys rule: rev_induct)
  case Nil
  then show ?case by simp
next
  case (snoc y ys)
  then have "last_named (elementName e) ((xs @ e # ys) @ [y]) = Some e"
    unfolding last_named_snoc by simp
  then show ?case by simp
qed

lemma forecasts_nth:
  assumes "ForecastNormalizer resp loc = Inr w" and "i < length (forecasts w)"
  shows "forecasts w ! i = period_value (weatherElement loc) i"
    and "i < length (time (hd (weatherElement loc)))"
  using assms by (auto simp: ForecastNormalizer_eq_Inr)

lemma replace_g_single: "replace_g p [r] s = map (\<lambda>c. if c = p then r else c) s"
  by (induction s) simp_all

lemma substituted_city_map:
  "substituted_city req_city = map (\<lambda>c. if c = 0x53F0 then 0x81FA else c) req_city"
  by (simp add: substituted_city_def replace_g_single)

lemma reply_unfold:
  "reply (getWeatherByCity rt req_city) =
     (case try_block rt req_city (substituted_city req_city) of
        Inr sent \<Rightarrow> sent
      | Inl err \<Rightarrow> catch_block rt err)"
  by (simp add: getWeatherByCity_def Let_def)

lemma outbound_unfold:
  "outbound (getWeatherByCity rt req_city) = [outbound_request rt (substituted_city req_city)]"
  by (simp add: getWeatherByCity_def Let_def)

lemma catch_block_cong:
  "undefined_read rt' = undefined_read rt \<Longrightarrow> catch_block rt' err = catch_block rt err"
  by (simp add: catch_block_def split: option.split)

section \<open>The example inputs, run\<close>

lemmas ex_defs =
  ex_taipei_def ex_duplicate_def ex_misaligned_def ex_short_def ex_no_elements_def
  ex_location_def ex_response_def ex_Wx_def ex_PoP_def ex_UVI_def ex_Wx_late_def
  ex_PoP_shifted_def ex_PoP_short_def slot_def ex_period_def ex_normalized_def
  ex_runtime_def ex_upstream_def ex_unauthorized_def ex_unauthorized_body_def v8_wording_def

lemmas run_defs =
  ForecastNormalizer_def member_of_def for_loop.simps forecast_seed_def callback_def
  switch_elementName_def getWeatherByCity_def try_block_def catch_block_def
  outbound_request_def substituted_city_def not_found_message_def weatherData_json_def
  forecast_json_def CWA_API_BASE_URL_def Let_def

lemma ex_taipei_run:
  "ForecastNormalizer (ex_response [ex_taipei]) ex_taipei =
     Inr (ex_normalized [ex_period ''06:00'' ''18:00'' ''Sunny'' ''10%'',
                         ex_period ''18:00'' ''06:00'' ''Cloudy'' ''30%''])"
  by (simp add: run_defs ex_defs ascii_def)

lemma ex_duplicate_run:
  "ForecastNormalizer (ex_response [ex_duplicate]) ex_duplicate =
     Inr (ex_normalized [ex_period ''06:00'' ''18:00'' ''Rainy'' ''10%'',
                         ex_period ''18:00'' ''06:00'' ''Windy'' ''30%''])"
  by (simp add: run_defs ex_defs ascii_def)

lemma ex_misaligned_run:
  "ForecastNormalizer (ex_response [ex_misaligned]) ex_misaligned =
     Inr (ex_normalized [ex_period ''06:00'' ''18:00'' ''Sunny'' ''30%'',
                         ex_period ''18:00'' ''06:00'' ''Cloudy'' ''10%''])"
  by (simp add: run_defs ex_defs ascii_def)

lemma ex_short_run:
  "ForecastNormalizer (ex_response [ex_short]) ex_short = Inl (TypeError (ascii ''parameter''))"
  by (simp add: run_defs ex_defs ascii_def)

section \<open>The claims\<close>

subsection \<open>C1: one record per time slot, fields by the fixed mapping\<close>

text \<open>
  C1. Let the input have a first weather element with \<open>N\<close> time slots, and let every
  element have \<open>N\<close> time slots. Then the normalizer returns a forecast with exactly
  \<open>N\<close> records. In record \<open>i\<close>, for each row (name, field, suffix) of the fixed mapping
  (Wx to weather, PoP to rain with a percent sign, MinT to minTemp and MaxT to maxTemp
  with the degree sign and C, CI to comfort, WS to windSpeed): when an element of that
  name is present, the field is the \<open>i\<close>-th parameter value of the last such element
  followed by the suffix; when none is present, the field is the empty string. So with
  \<open>K\<close> of the six names present, \<open>K\<close> fields are populated and the other \<open>6 - K\<close>
  are empty. An element with any other name changes no field and raises no error: the
  statement holds whatever other names occur in the sequence.
\<close>

theorem normalizer_fields:
  assumes "weatherElement loc \<noteq> []"
    and "\<forall>e \<in> set (weatherElement loc).
           length (time e) = length (time (hd (weatherElement loc)))"
  shows "\<exists>w. ForecastNormalizer resp loc = Inr w \<and>
           length (forecasts w) = length (time (hd (weatherElement loc))) \<and>
           (\<forall>i < length (forecasts w). \<forall>(nm, field, suffix) \<in> set spec_mapping_table.
              field (forecasts w ! i) =
                (case last_named nm (weatherElement loc) of
                   None \<Rightarrow> []
                 | Some e \<Rightarrow> slot_value e i @ suffix))"
proof -
  let ?wes = "weatherElement loc"
  let ?n = "length (time (hd ?wes))"
  let ?w = "\<lparr> city = locationName loc, updateTime = datasetDescription (records (data resp)),
              forecasts = map (period_value ?wes) [0..<?n] \<rparr>"
  have "\<forall>e \<in> set ?wes. ?n \<le> length (time e)"
  proof
    fix e
    assume "e \<in> set ?wes"
    with assms(2) have "length (time e) = ?n" by blast
    then show "?n \<le> length (time e)" by (rule eq_imp_le [OF sym])
  qed
  with assms(1) have "ForecastNormalizer resp loc = Inr ?w"
    unfolding ForecastNormalizer_eq_Inr by blast
  moreover have "length (forecasts ?w) = ?n" by simp
  moreover have "\<forall>i < length (forecasts ?w). \<forall>(nm, field, suffix) \<in> set spec_mapping_table.
      field (forecasts ?w ! i) =
        (case last_named nm ?wes of None \<Rightarrow> [] | Some e \<Rightarrow> slot_value e i @ suffix)"
    using period_value_fields [of ?wes] by simp
  ultimately show ?thesis by blast
qed

theorem normalizer_fields_witness:
  "weatherElement ex_taipei \<noteq> [] \<and>
   map (\<lambda>e. length (time e)) (weatherElement ex_taipei) = [2, 2, 2] \<and>
   map elementName (weatherElement ex_taipei) = [ascii ''Wx'', ascii ''PoP'', ascii ''UVI''] \<and>
   ForecastNormalizer (ex_response [ex_taipei]) ex_taipei =
     (Inr (ex_normalized
        [\<lparr> startTime = ascii ''06:00'', endTime = ascii ''18:00'',
            weather = ascii ''Sunny'', rain = ascii ''10%'',
            minTemp = [], maxTemp = [], comfort = [], windSpeed = [] \<rparr>,
         \<lparr> startTime = ascii ''18:00'', endTime = ascii ''06:00'',
            weather = ascii ''Cloudy'', rain = ascii ''30%'',
            minTemp = [], maxTemp = [], comfort = [], windSpeed = [] \<rparr>])
      :: nat js_error + NormalizedForecast)"
proof -
  have h1: "weatherElement ex_taipei \<noteq> []"
    by (simp add: ex_defs)
  have h2: "\<forall>e \<in> set (weatherElement ex_taipei).
      length (time e) = length (time (hd (weatherElement ex_taipei)))"
    by (simp add: ex_defs)
  from normalizer_fields [OF h1 h2, of "ex_response [ex_taipei]"]
  obtain w :: NormalizedForecast
    where run: "ForecastNormalizer (ex_response [ex_taipei]) ex_taipei
        = (Inr w :: nat js_error + NormalizedForecast)"
    by blast
  have "w = ex_normalized [ex_period ''06:00'' ''18:00'' ''Sunny'' ''10%'',
                           ex_period ''18:00'' ''06:00'' ''Cloudy'' ''30%'']"
    using run by (simp add: ex_taipei_run)
  with run show ?thesis
    by (simp add: ex_defs)
qed

subsection \<open>C2: an upstream error response\<close>

text \<open>
  C2, as amended. When the call to the upstream is rejected with an error that carries
  a response, the handler calls \<open>res.status\<close> with the status of that response,
  unchanged, and \<open>res.json\<close> with the object whose single field \<open>error\<close> holds the
  data of that response as axios delivered it, unchanged. This is a statement about the
  two calls, for every status and every data: what is handed to \<open>res.json\<close> is that
  object, not the upstream body itself, and what Express sends for it (no body at 204
  and 304, \<open>null\<close> for a number that is not finite) comes after the handler.
\<close>

theorem upstream_error_wrapped:
  assumes "axios_get rt (outbound_request rt (substituted_city req_city)) = Inl err"
    and "response err = Some r"
  shows "reply (getWeatherByCity rt req_city) =
           \<lparr> statusCode = status r, json_arg = JObj [(ascii ''error'', data r)] \<rparr>"
  using assms by (simp add: reply_unfold try_block_def catch_block_def)

theorem upstream_error_wrapped_witness:
  "axios_get (ex_runtime ex_unauthorized)
     (outbound_request (ex_runtime ex_unauthorized) (substituted_city [0x53F0, 0x5317, 0x5E02])) =
     Inl (AxiosError (ascii ''Request failed with status code 401'')
            (Some \<lparr> status = 401, data = ex_unauthorized_body \<rparr>)) \<and>
   reply (getWeatherByCity (ex_runtime ex_unauthorized) [0x53F0, 0x5317, 0x5E02]) =
     \<lparr> statusCode = 401, json_arg = JObj [(ascii ''error'', ex_unauthorized_body)] \<rparr>"
proof -
  let ?err = "AxiosError (ascii ''Request failed with status code 401'')
                (Some \<lparr> status = 401, data = ex_unauthorized_body \<rparr>) :: nat js_error"
  have h1: "axios_get (ex_runtime ex_unauthorized)
      (outbound_request (ex_runtime ex_unauthorized) (substituted_city [0x53F0, 0x5317, 0x5E02])) =
      Inl ?err"
    by (simp add: ex_runtime_def ex_unauthorized_def)
  have h2: "response ?err = Some \<lparr> status = 401, data = ex_unauthorized_body \<rparr>"
    by simp
  from upstream_error_wrapped [OF h1 h2] h1 show ?thesis
    by simp
qed

text \<open>
  The claim as written fails: for the upstream's answer to an invalid key, status 401,
  the handler hands to \<open>res.json\<close> an object that is not the upstream body. At this
  status Express sends the serialisation of that object, so the body of the response
  is \<open>{"error": {"code": 401, "message": "Unauthorized"}}\<close> and not the upstream's
  \<open>{"code": 401, "message": "Unauthorized"}\<close>.
\<close>

theorem upstream_body_not_verbatim:
  "statusCode (reply (getWeatherByCity (ex_runtime ex_unauthorized) [0x53F0, 0x5317, 0x5E02])) = 401 \<and>
   json_arg (reply (getWeatherByCity (ex_runtime ex_unauthorized) [0x53F0, 0x5317, 0x5E02])) =
     JObj [(ascii ''error'', ex_unauthorized_body)] \<and>
   json_arg (reply (getWeatherByCity (ex_runtime ex_unauthorized) [0x53F0, 0x5317, 0x5E02])) \<noteq>
     ex_unauthorized_body"
  by (simp add: run_defs ex_runtime_def ex_unauthorized_def ex_unauthorized_body_def)

subsection \<open>C3: time sequences that differ from the first element's\<close>

text \<open>
  C3, as amended. Let the sequence of weather elements be non-empty and let no element
  have fewer time slots than the first one, which has \<open>N\<close>. Then the normalizer checks
  nothing and returns \<open>N\<close> records without an error, whatever the start and end times
  of the other elements' slots and however many more slots they have: record \<open>i\<close> has
  the times of the first element's \<open>i\<close>-th slot, and each mapped field holds the
  \<open>i\<close>-th parameter value of the last element of that name, by position only.
\<close>

theorem no_validation_of_alignment:
  assumes "weatherElement loc \<noteq> []"
    and "\<forall>e \<in> set (weatherElement loc).
           length (time (hd (weatherElement loc))) \<le> length (time e)"
  shows "\<exists>w. ForecastNormalizer resp loc = Inr w \<and>
           length (forecasts w) = length (time (hd (weatherElement loc))) \<and>
           (\<forall>i < length (forecasts w).
              startTime (forecasts w ! i) = startTime (time (hd (weatherElement loc)) ! i) \<and>
              endTime (forecasts w ! i) = endTime (time (hd (weatherElement loc)) ! i) \<and>
              (\<forall>(nm, field, suffix) \<in> set spec_mapping_table.
                 field (forecasts w ! i) =
                   (case last_named nm (weatherElement loc) of
                      None \<Rightarrow> []
                    | Some e \<Rightarrow> slot_value e i @ suffix)))"
proof -
  let ?wes = "weatherElement loc"
  let ?n = "length (time (hd ?wes))"
  let ?w = "\<lparr> city = locationName loc, updateTime = datasetDescription (records (data resp)),
              forecasts = map (period_value ?wes) [0..<?n] \<rparr>"
  from assms have "ForecastNormalizer resp loc = Inr ?w"
    unfolding ForecastNormalizer_eq_Inr by blast
  moreover have "length (forecasts ?w) = ?n" by simp
  moreover have "\<forall>i < length (forecasts ?w).
      startTime (forecasts ?w ! i) = startTime (time (hd ?wes) ! i) \<and>
      endTime (forecasts ?w ! i) = endTime (time (hd ?wes) ! i) \<and>
      (\<forall>(nm, field, suffix) \<in> set spec_mapping_table.
         field (forecasts ?w ! i) =
           (case last_named nm ?wes of None \<Rightarrow> [] | Some e \<Rightarrow> slot_value e i @ suffix))"
    using period_value_fields [of ?wes] by (simp add: period_value_times)
  ultimately show ?thesis by blast
qed

theorem no_validation_of_alignment_witness:
  "weatherElement ex_misaligned \<noteq> [] \<and>
   map (\<lambda>e. length (time e)) (weatherElement ex_misaligned) = [2, 3] \<and>
   map startTime (time ex_Wx) = [ascii ''06:00'', ascii ''18:00''] \<and>
   map startTime (time ex_PoP_shifted) = [ascii ''18:00'', ascii ''06:00'', ascii ''18:00''] \<and>
   ForecastNormalizer (ex_response [ex_misaligned]) ex_misaligned =
     (Inr (ex_normalized
        [\<lparr> startTime = ascii ''06:00'', endTime = ascii ''18:00'',
            weather = ascii ''Sunny'', rain = ascii ''30%'',
            minTemp = [], maxTemp = [], comfort = [], windSpeed = [] \<rparr>,
         \<lparr> startTime = ascii ''18:00'', endTime = ascii ''06:00'',
            weather = ascii ''Cloudy'', rain = ascii ''10%'',
            minTemp = [], maxTemp = [], comfort = [], windSpeed = [] \<rparr>])
      :: nat js_error + NormalizedForecast)"
proof -
  have h1: "weatherElement ex_misaligned \<noteq> []"
    by (simp add: ex_defs)
  have h2: "\<forall>e \<in> set (weatherElement ex_misaligned).
      length (time (hd (weatherElement ex_misaligned))) \<le> length (time e)"
    by (simp add: ex_defs)
  from no_validation_of_alignment [OF h1 h2, of "ex_response [ex_misaligned]"]
  obtain w :: NormalizedForecast
    where run: "ForecastNormalizer (ex_response [ex_misaligned]) ex_misaligned
        = (Inr w :: nat js_error + NormalizedForecast)"
    by blast
  have "w = ex_normalized [ex_period ''06:00'' ''18:00'' ''Sunny'' ''30%'',
                           ex_period ''18:00'' ''06:00'' ''Cloudy'' ''10%'']"
    using run by (simp add: ex_misaligned_run)
  with run show ?thesis
    by (simp add: ex_defs)
qed

text \<open>
  The claim as written fails: a second element with fewer slots than the first makes
  the read of \<open>element.time[i].parameter\<close> throw, and the handler answers 500.
\<close>

theorem shorter_sequence_raises:
  "length (time ex_PoP_short) \<noteq> length (time ex_Wx) \<and>
   weatherElement ex_short = [ex_Wx, ex_PoP_short] \<and>
   ForecastNormalizer (ex_response [ex_short]) ex_short =
     (Inl (TypeError (ascii ''parameter'')) :: nat js_error + NormalizedForecast) \<and>
   reply (getWeatherByCity (ex_runtime (\<lambda>rq. Inr (ex_response [ex_short]))) [0x53F0, 0x5317, 0x5E02]) =
     \<lparr> statusCode = 500,
       json_arg = JObj [(ascii ''error'', JStr (v8_wording (ascii ''parameter'')))] \<rparr>"
proof -
  have "reply (getWeatherByCity (ex_runtime (\<lambda>rq. Inr (ex_response [ex_short]))) [0x53F0, 0x5317, 0x5E02]) =
     \<lparr> statusCode = 500,
       json_arg = JObj [(ascii ''error'', JStr (v8_wording (ascii ''parameter'')))] \<rparr>"
    by (simp add: reply_unfold try_block_def catch_block_def ex_runtime_def
        ex_response_def [of "[ex_short]"] ex_short_run [unfolded ex_response_def])
  then show ?thesis
    by (simp add: ex_short_run) (simp add: ex_defs)
qed

subsection \<open>C4: the substitution of the city name\<close>

text \<open>
  C4. The handler makes exactly one outbound call. The location name of that call has
  the length of the requested name and, at every position, the code unit U+81FA where
  the requested name has U+53F0 and the requested name's code unit elsewhere, so no
  U+53F0 is left in it; a requested name without U+53F0 is passed unchanged. The name is used in the call: the
  outcome of the handler depends on the client only through its answer to that request.
\<close>

theorem city_substituted_before_call:
  "\<exists>rq. outbound (getWeatherByCity rt req_city) = [rq] \<and>
        length (locationName_param (params rq)) = length req_city \<and>
        0x53F0 \<notin> set (locationName_param (params rq)) \<and>
        (\<forall>k < length req_city.
           locationName_param (params rq) ! k =
             (if req_city ! k = 0x53F0 then 0x81FA else req_city ! k)) \<and>
        (0x53F0 \<notin> set req_city \<longrightarrow> locationName_param (params rq) = req_city) \<and>
        (\<forall>rt'. CWA_API_KEY rt' = CWA_API_KEY rt \<and> undefined_read rt' = undefined_read rt \<and>
               axios_get rt' rq = axios_get rt rq \<longrightarrow>
               getWeatherByCity rt' req_city = getWeatherByCity rt req_city)"
proof -
  let ?rq = "outbound_request rt (substituted_city req_city)"
  have "outbound (getWeatherByCity rt req_city) = [?rq]"
    by (rule outbound_unfold)
  moreover have "length (locationName_param (params ?rq)) = length req_city"
    by (simp add: outbound_request_def substituted_city_map)
  moreover have "0x53F0 \<notin> set (locationName_param (params ?rq))"
    by (auto simp: outbound_request_def substituted_city_map)
  moreover have "\<forall>k < length req_city.
      locationName_param (params ?rq) ! k =
        (if req_city ! k = 0x53F0 then 0x81FA else req_city ! k)"
    by (simp add: outbound_request_def substituted_city_map)
  moreover have "0x53F0 \<notin> set req_city \<longrightarrow> locationName_param (params ?rq) = req_city"
    by (auto simp: outbound_request_def substituted_city_map intro!: map_idI)
  moreover have "getWeatherByCity rt' req_city = getWeatherByCity rt req_city"
    if "CWA_API_KEY rt' = CWA_API_KEY rt" "undefined_read rt' = undefined_read rt"
      "axios_get rt' ?rq = axios_get rt ?rq" for rt'
  proof -
    have rq: "outbound_request rt' (substituted_city req_city) = ?rq"
      using that(1) by (simp add: outbound_request_def)
    have "try_block rt' req_city (substituted_city req_city)
        = try_block rt req_city (substituted_city req_city)"
      unfolding try_block_def rq that(3) ..
    moreover have "catch_block rt' err = catch_block rt err" for err
      using that(2) by (rule catch_block_cong)
    ultimately show ?thesis
      by (simp add: getWeatherByCity_def Let_def rq cong: sum.case_cong)
  qed
  ultimately show ?thesis by blast
qed

theorem city_substituted_before_call_witness:
  "outbound (getWeatherByCity (ex_runtime ex_upstream) [0x53F0, 0x5317, 0x53F0]) =
     [\<lparr> url = ascii ''https://opendata.cwa.gov.tw/api/v1/rest/datastore/F-C0032-001'',
        params = \<lparr> Authorization = Some (ascii ''CWA-KEY''),
                   locationName_param = [0x81FA, 0x5317, 0x81FA] \<rparr> \<rparr>] \<and>
   0x53F0 \<notin> set [0x9AD8, 0x96C4, 0x5E02 :: jschar] \<and>
   outbound (getWeatherByCity (ex_runtime ex_upstream) [0x9AD8, 0x96C4, 0x5E02]) =
     [\<lparr> url = ascii ''https://opendata.cwa.gov.tw/api/v1/rest/datastore/F-C0032-001'',
        params = \<lparr> Authorization = Some (ascii ''CWA-KEY''),
                   locationName_param = [0x9AD8, 0x96C4, 0x5E02] \<rparr> \<rparr>] \<and>
   getWeatherByCity (ex_runtime (\<lambda>rq. Inr (ex_response []))) [0x9AD8, 0x96C4, 0x5E02] =
     getWeatherByCity (ex_runtime ex_upstream) [0x9AD8, 0x96C4, 0x5E02]"
proof -
  let ?rt = "ex_runtime ex_upstream"
  let ?rt' = "ex_runtime (\<lambda>rq. Inr (ex_response []))"
  let ?kaohsiung = "[0x9AD8, 0x96C4, 0x5E02] :: jsstring"
  from city_substituted_before_call [of ?rt ?kaohsiung]
  obtain rq where rq: "outbound (getWeatherByCity ?rt ?kaohsiung) = [rq]"
    and same: "0x53F0 \<notin> set ?kaohsiung \<longrightarrow> locationName_param (params rq) = ?kaohsiung"
    and only: "\<forall>rt'. CWA_API_KEY rt' = CWA_API_KEY ?rt \<and> undefined_read rt' = undefined_read ?rt \<and>
                axios_get rt' rq = axios_get ?rt rq \<longrightarrow>
                getWeatherByCity rt' ?kaohsiung = getWeatherByCity ?rt ?kaohsiung"
    by blast
  have absent: "0x53F0 \<notin> set ?kaohsiung"
    by simp
  with same have name: "locationName_param (params rq) = ?kaohsiung"
    by blast
  have "CWA_API_KEY ?rt' = CWA_API_KEY ?rt \<and> undefined_read ?rt' = undefined_read ?rt \<and>
      axios_get ?rt' rq = axios_get ?rt rq"
    by (simp add: ex_runtime_def ex_upstream_def name)
  with only have "getWeatherByCity ?rt' ?kaohsiung = getWeatherByCity ?rt ?kaohsiung"
    by blast
  moreover have "outbound (getWeatherByCity ?rt [0x53F0, 0x5317, 0x53F0]) =
     [\<lparr> url = ascii ''https://opendata.cwa.gov.tw/api/v1/rest/datastore/F-C0032-001'',
        params = \<lparr> Authorization = Some (ascii ''CWA-KEY''),
                   locationName_param = [0x81FA, 0x5317, 0x81FA] \<rparr> \<rparr>]"
    by (simp add: run_defs ex_runtime_def ascii_def)
  moreover have "outbound (getWeatherByCity ?rt ?kaohsiung) =
     [\<lparr> url = ascii ''https://opendata.cwa.gov.tw/api/v1/rest/datastore/F-C0032-001'',
        params = \<lparr> Authorization = Some (ascii ''CWA-KEY''),
                   locationName_param = ?kaohsiung \<rparr> \<rparr>]"
    by (simp add: run_defs ex_runtime_def ascii_def)
  ultimately show ?thesis
    using absent by blast
qed

subsection \<open>C5: no matching location\<close>

text \<open>
  C5. When the upstream answers the call with an empty \<open>location\<close> array, the handler
  answers with status 404 and the object \<open>{success: false, message}\<close>, where the
  message is the fixed text around the city name as it was requested, before the
  substitution of U+53F0.
\<close>

theorem not_found_names_original_city:
  assumes "axios_get rt (outbound_request rt (substituted_city req_city)) = Inr resp"
    and "location (records (data resp)) = []"
  shows "reply (getWeatherByCity rt req_city) =
           \<lparr> statusCode = 404,
             json_arg = JObj [(ascii ''success'', JBool False),
                          (ascii ''message'', JStr
                             ([0x67E5, 0x7121, 0x20, 0x27] @ req_city @
                              [0x27, 0x20, 0x8CC7, 0x6599, 0xFF0C, 0x8ACB, 0x78BA, 0x8A8D,
                               0x7E23, 0x5E02, 0x540D, 0x7A31, 0x662F, 0x5426, 0x6B63,
                               0x78BA, 0x3002]))] \<rparr>"
  using assms by (simp add: reply_unfold try_block_def not_found_message_def)

theorem not_found_names_original_city_witness:
  "substituted_city [0x53F0, 0x4E2D] = [0x81FA, 0x4E2D] \<and>
   axios_get (ex_runtime ex_upstream)
     (outbound_request (ex_runtime ex_upstream) (substituted_city [0x53F0, 0x4E2D])) =
     Inr (ex_response []) \<and>
   location (records (data (ex_response []))) = [] \<and>
   reply (getWeatherByCity (ex_runtime ex_upstream) [0x53F0, 0x4E2D]) =
     \<lparr> statusCode = 404,
       json_arg = JObj [(ascii ''success'', JBool False),
                    (ascii ''message'', JStr
                       [0x67E5, 0x7121, 0x20, 0x27, 0x53F0, 0x4E2D,
                        0x27, 0x20, 0x8CC7, 0x6599, 0xFF0C, 0x8ACB, 0x78BA, 0x8A8D,
                        0x7E23, 0x5E02, 0x540D, 0x7A31, 0x662F, 0x5426, 0x6B63,
                        0x78BA, 0x3002])] \<rparr>"
proof -
  have sub: "substituted_city [0x53F0, 0x4E2D] = [0x81FA, 0x4E2D]"
    by (simp add: substituted_city_def)
  have h1: "axios_get (ex_runtime ex_upstream)
      (outbound_request (ex_runtime ex_upstream) (substituted_city [0x53F0, 0x4E2D])) =
      Inr (ex_response [])"
    by (simp add: sub ex_runtime_def ex_upstream_def outbound_request_def)
  have h2: "location (records (data (ex_response []))) = []"
    by (simp add: ex_response_def)
  from not_found_names_original_city [OF h1 h2] sub h1 h2 show ?thesis
    by simp
qed

subsection \<open>C6: times from the first element, records in index order\<close>

text \<open>
  C6. Whenever the normalizer returns a forecast, it has as many records as the first
  weather element has time slots, and for every index \<open>i\<close> below that number the
  record at position \<open>i\<close> of the output has the start time and the end time of the
  first element's \<open>i\<close>-th slot: the records stand in index order.
\<close>

theorem times_from_first_element:
  assumes "ForecastNormalizer resp loc = Inr w"
  shows "length (forecasts w) = length (time (hd (weatherElement loc))) \<and>
         (\<forall>i < length (time (hd (weatherElement loc))).
            startTime (forecasts w ! i) = startTime (time (hd (weatherElement loc)) ! i) \<and>
            endTime (forecasts w ! i) = endTime (time (hd (weatherElement loc)) ! i))"
  using assms by (auto simp: ForecastNormalizer_eq_Inr period_value_times)

theorem times_from_first_element_witness:
  "ForecastNormalizer (ex_response [ex_duplicate]) ex_duplicate =
     (Inr (ex_normalized [ex_period ''06:00'' ''18:00'' ''Rainy'' ''10%'',
                          ex_period ''18:00'' ''06:00'' ''Windy'' ''30%''])
      :: nat js_error + NormalizedForecast) \<and>
   hd (weatherElement ex_duplicate) = ex_Wx \<and>
   map startTime (time ex_Wx) = [ascii ''06:00'', ascii ''18:00''] \<and>
   map endTime (time ex_Wx) = [ascii ''18:00'', ascii ''06:00''] \<and>
   map startTime (forecasts (ex_normalized [ex_period ''06:00'' ''18:00'' ''Rainy'' ''10%'',
                                            ex_period ''18:00'' ''06:00'' ''Windy'' ''30%'']))
     = [ascii ''06:00'', ascii ''18:00''] \<and>
   map endTime (forecasts (ex_normalized [ex_period ''06:00'' ''18:00'' ''Rainy'' ''10%'',
                                          ex_period ''18:00'' ''06:00'' ''Windy'' ''30%'']))
     = [ascii ''18:00'', ascii ''06:00'']"
proof -
  let ?w = "ex_normalized [ex_period ''06:00'' ''18:00'' ''Rainy'' ''10%'',
                           ex_period ''18:00'' ''06:00'' ''Windy'' ''30%'']"
  have h: "ForecastNormalizer (ex_response [ex_duplicate]) ex_duplicate
      = (Inr ?w :: nat js_error + NormalizedForecast)"
    by (rule ex_duplicate_run)
  have first: "hd (weatherElement ex_duplicate) = ex_Wx"
    by (simp add: ex_duplicate_def ex_location_def)
  have slots: "map startTime (time ex_Wx) = [ascii ''06:00'', ascii ''18:00'']"
    "map endTime (time ex_Wx) = [ascii ''18:00'', ascii ''06:00'']"
    by (simp_all add: ex_Wx_def slot_def)
  from times_from_first_element [OF h]
  have len: "length (forecasts ?w) = length (time ex_Wx)"
    and at: "\<forall>i < length (time ex_Wx).
        startTime (forecasts ?w ! i) = startTime (time ex_Wx ! i) \<and>
        endTime (forecasts ?w ! i) = endTime (time ex_Wx ! i)"
    unfolding first by blast+
  have "map startTime (forecasts ?w) = map startTime (time ex_Wx)"
    using len at by (simp add: list_eq_iff_nth_eq)
  moreover have "map endTime (forecasts ?w) = map endTime (time ex_Wx)"
    using len at by (simp add: list_eq_iff_nth_eq)
  ultimately show ?thesis
    using h first slots by simp
qed

subsection \<open>C7: an empty sequence of weather elements\<close>

text \<open>
  C7. When the matched location has an empty \<open>weatherElement\<close> sequence, the
  normalizer returns no forecast: the read of \<open>weatherElements[0].time\<close> throws a
  TypeError, and the handler answers with status 500 and the object whose field
  \<open>error\<close> is the message of that error.
\<close>

theorem empty_weatherElement_is_error:
  assumes "axios_get rt (outbound_request rt (substituted_city req_city)) = Inr resp"
    and "location (records (data resp)) = loc # others"
    and "weatherElement loc = []"
  shows "ForecastNormalizer resp loc = Inl (TypeError (ascii ''time'')) \<and>
         reply (getWeatherByCity rt req_city) =
           \<lparr> statusCode = 500,
             json_arg = JObj [(ascii ''error'', JStr (undefined_read rt (ascii ''time'')))] \<rparr>"
proof -
  have "ForecastNormalizer resp loc = Inl (TypeError (ascii ''time''))"
    using assms(3) by (simp add: ForecastNormalizer_def member_of_def)
  then show ?thesis
    using assms(1,2)
    by (simp add: ForecastNormalizer_def member_of_def assms(3) reply_unfold try_block_def catch_block_def)
qed

theorem empty_weatherElement_is_error_witness:
  "axios_get (ex_runtime (\<lambda>rq. Inr (ex_response [ex_no_elements])))
     (outbound_request (ex_runtime (\<lambda>rq. Inr (ex_response [ex_no_elements])))
        (substituted_city [0x53F0, 0x5317, 0x5E02])) = Inr (ex_response [ex_no_elements]) \<and>
   location (records (data (ex_response [ex_no_elements]))) = ex_no_elements # [] \<and>
   weatherElement ex_no_elements = [] \<and>
   ForecastNormalizer (ex_response [ex_no_elements]) ex_no_elements =
     (Inl (TypeError (ascii ''time'')) :: nat js_error + NormalizedForecast) \<and>
   reply (getWeatherByCity (ex_runtime (\<lambda>rq. Inr (ex_response [ex_no_elements])))
            [0x53F0, 0x5317, 0x5E02]) =
     \<lparr> statusCode = 500,
       json_arg = JObj [(ascii ''error'', JStr
                (ascii ''Cannot read properties of undefined (reading '' @ [0x27] @
                 ascii ''time'' @ [0x27] @ ascii '')''))] \<rparr>"
proof -
  let ?rt = "ex_runtime (\<lambda>rq. Inr (ex_response [ex_no_elements]))"
  have h1: "axios_get ?rt (outbound_request ?rt (substituted_city [0x53F0, 0x5317, 0x5E02])) =
      Inr (ex_response [ex_no_elements])"
    by (simp add: ex_runtime_def)
  have h2: "location (records (data (ex_response [ex_no_elements]))) = ex_no_elements # []"
    by (simp add: ex_response_def)
  have h3: "weatherElement ex_no_elements = []"
    by (simp add: ex_no_elements_def ex_location_def)
  have "undefined_read ?rt = v8_wording"
    by (simp add: ex_runtime_def)
  with empty_weatherElement_is_error [OF h1 h2 h3] h1 h2 h3 show ?thesis
    by (simp add: v8_wording_def)
qed

subsection \<open>C8: city and update time of a successful request\<close>

text \<open>
  C8. When the upstream answers with at least one location and the normalizer returns
  a forecast for the first one, the \<open>city\<close> of that forecast is the \<open>locationName\<close>
  of that location, its \<open>updateTime\<close> is \<open>records.datasetDescription\<close> of the answer,
  and the handler answers with status 200 and \<open>{success: true, data}\<close>, where \<open>data\<close>
  is that forecast.
\<close>

theorem city_and_updateTime:
  fixes rt :: "'n runtime"
  assumes "axios_get rt (outbound_request rt (substituted_city req_city)) = Inr resp"
    and "location (records (data resp)) = loc # others"
    and "ForecastNormalizer resp loc = (Inr w :: 'n js_error + NormalizedForecast)"
  shows "city w = locationName loc \<and>
         updateTime w = datasetDescription (records (data resp)) \<and>
         reply (getWeatherByCity rt req_city) =
           \<lparr> statusCode = 200,
             json_arg = JObj [(ascii ''success'', JBool True),
                          (ascii ''data'', JObj
                             [(ascii ''city'', JStr (locationName loc)),
                              (ascii ''updateTime'', JStr (datasetDescription (records (data resp)))),
                              (ascii ''forecasts'', JArr (map forecast_json (forecasts w)))])] \<rparr>"
proof -
  from assms(3) have "city w = locationName loc"
    and "updateTime w = datasetDescription (records (data resp))"
    by (simp_all add: ForecastNormalizer_eq_Inr)
  then show ?thesis
    using assms by (simp add: reply_unfold try_block_def weatherData_json_def)
qed

theorem city_and_updateTime_witness:
  "axios_get (ex_runtime ex_upstream)
     (outbound_request (ex_runtime ex_upstream) (substituted_city [0x53F0, 0x5317, 0x5E02])) =
     Inr (ex_response [ex_taipei]) \<and>
   location (records (data (ex_response [ex_taipei]))) = ex_taipei # [] \<and>
   locationName ex_taipei = [0x81FA, 0x5317, 0x5E02] \<and>
   datasetDescription (records (data (ex_response [ex_taipei]))) = ascii ''36h forecast'' \<and>
   reply (getWeatherByCity (ex_runtime ex_upstream) [0x53F0, 0x5317, 0x5E02]) =
     \<lparr> statusCode = 200,
       json_arg = JObj [(ascii ''success'', JBool True),
                    (ascii ''data'', JObj
                       [(ascii ''city'', JStr [0x81FA, 0x5317, 0x5E02]),
                        (ascii ''updateTime'', JStr (ascii ''36h forecast'')),
                        (ascii ''forecasts'', JArr
                           [forecast_json (ex_period ''06:00'' ''18:00'' ''Sunny'' ''10%''),
                            forecast_json (ex_period ''18:00'' ''06:00'' ''Cloudy'' ''30%'')])])] \<rparr>"
proof -
  let ?rt = "ex_runtime ex_upstream"
  let ?w = "ex_normalized [ex_period ''06:00'' ''18:00'' ''Sunny'' ''10%'',
                           ex_period ''18:00'' ''06:00'' ''Cloudy'' ''30%'']"
  have h1: "axios_get ?rt (outbound_request ?rt (substituted_city [0x53F0, 0x5317, 0x5E02])) =
      Inr (ex_response [ex_taipei])"
    by (simp add: substituted_city_def ex_runtime_def ex_upstream_def outbound_request_def)
  have h2: "location (records (data (ex_response [ex_taipei]))) = ex_taipei # []"
    by (simp add: ex_response_def)
  have h3: "ForecastNormalizer (ex_response [ex_taipei]) ex_taipei
      = (Inr ?w :: nat js_error + NormalizedForecast)"
    by (rule ex_taipei_run)
  have names: "locationName ex_taipei = [0x81FA, 0x5317, 0x5E02]"
    "datasetDescription (records (data (ex_response [ex_taipei]))) = ascii ''36h forecast''"
    by (simp_all add: ex_taipei_def ex_location_def ex_response_def)
  from city_and_updateTime [OF h1 h2 h3] h1 h2 names show ?thesis
    by (simp add: ex_normalized_def)
qed

subsection \<open>C9: the same input gives the same output\<close>

text \<open>
  C9. The output of the normalizer is determined by its input. Take two runs of the
  handler, possibly for different requested names, with different API keys and
  different clients, on the same engine. If both upstream answers have the same first
  location and the same dataset description, then both runs of the normalizer give the
  same result, forecast or error, and both replies are identical: nothing else of the
  two runs reaches the output.
\<close>

theorem same_input_same_output:
  fixes rt1 rt2 :: "'n runtime"
  assumes "axios_get rt1 (outbound_request rt1 (substituted_city city1)) = Inr resp1"
    and "axios_get rt2 (outbound_request rt2 (substituted_city city2)) = Inr resp2"
    and "location (records (data resp1)) = loc # others1"
    and "location (records (data resp2)) = loc # others2"
    and "datasetDescription (records (data resp1)) = datasetDescription (records (data resp2))"
    and "undefined_read rt1 = undefined_read rt2"
  shows "ForecastNormalizer resp1 loc = ForecastNormalizer resp2 loc \<and>
         reply (getWeatherByCity rt1 city1) = reply (getWeatherByCity rt2 city2)"
proof -
  have "ForecastNormalizer resp1 loc = ForecastNormalizer resp2 loc"
    by (simp add: ForecastNormalizer_def assms(5))
  moreover have "ForecastNormalizer resp1 loc = (ForecastNormalizer resp2 loc :: 'n js_error + NormalizedForecast)"
    by (simp add: ForecastNormalizer_def assms(5))
  ultimately show ?thesis
    using assms(1-4)
    by (simp add: reply_unfold try_block_def catch_block_cong [OF assms(6)] cong: sum.case_cong)
qed

theorem same_input_same_output_witness:
  "location (records (data (ex_response [ex_taipei]))) = ex_taipei # [] \<and>
   location (records (data
     \<lparr> status = 203,
       data = \<lparr> records = \<lparr> datasetDescription = ascii ''36h forecast'',
                              location = [ex_taipei, ex_short] \<rparr> \<rparr> \<rparr>)) = ex_taipei # [ex_short] \<and>
   reply (getWeatherByCity (ex_runtime ex_upstream) [0x53F0, 0x5317, 0x5E02]) =
   reply (getWeatherByCity
     \<lparr> CWA_API_KEY = None,
       axios_get = (\<lambda>rq. Inr
         \<lparr> status = 203,
           data = \<lparr> records = \<lparr> datasetDescription = ascii ''36h forecast'',
                                  location = [ex_taipei, ex_short] \<rparr> \<rparr> \<rparr>),
       undefined_read = v8_wording \<rparr> [0x81FA, 0x5317, 0x5E02])"
proof -
  let ?resp2 = "\<lparr> status = 203,
       data = \<lparr> records = \<lparr> datasetDescription = ascii ''36h forecast'',
                              location = [ex_taipei, ex_short] \<rparr> \<rparr> \<rparr>"
  let ?rt1 = "ex_runtime ex_upstream"
  let ?rt2 = "\<lparr> CWA_API_KEY = None, axios_get = (\<lambda>rq. Inr ?resp2),
                undefined_read = v8_wording \<rparr> :: nat runtime"
  have h1: "axios_get ?rt1 (outbound_request ?rt1 (substituted_city [0x53F0, 0x5317, 0x5E02])) =
      Inr (ex_response [ex_taipei])"
    by (simp add: substituted_city_def ex_runtime_def ex_upstream_def outbound_request_def)
  have h2: "axios_get ?rt2 (outbound_request ?rt2 (substituted_city [0x81FA, 0x5317, 0x5E02])) =
      Inr ?resp2"
    by simp
  have h3: "location (records (data (ex_response [ex_taipei]))) = ex_taipei # []"
    by (simp add: ex_response_def)
  have h4: "location (records (data ?resp2)) = ex_taipei # [ex_short]"
    by simp
  have h5: "datasetDescription (records (data (ex_response [ex_taipei]))) =
      datasetDescription (records (data ?resp2))"
    by (simp add: ex_response_def)
  have h6: "undefined_read ?rt1 = undefined_read ?rt2"
    by (simp add: ex_runtime_def)
  from same_input_same_output [OF h1 h2 h3 h4 h5 h6] h3 h4 show ?thesis
    by blast
qed

subsection \<open>C10: two elements of the same name\<close>

text \<open>
  C10. Let the normalizer return a forecast for a sequence of weather elements in which
  an element \<open>e\<close> with one of the six mapped names is preceded by another element of
  the same name and followed by none. Then in every record \<open>i\<close> of the output the field
  mapped to that name holds the \<open>i\<close>-th parameter value of \<open>e\<close>, the last element of
  that name, with the suffix of the mapping: the later assignment overwrites the earlier.
\<close>

theorem duplicate_name_last_wins:
  assumes "ForecastNormalizer resp loc = Inr w"
    and "weatherElement loc = xs @ e # ys"
    and "(elementName e, field, suffix) \<in> set spec_mapping_table"
    and "\<exists>x \<in> set xs. elementName x = elementName e"
    and "\<forall>y \<in> set ys. elementName y \<noteq> elementName e"
    and "i < length (forecasts w)"
  shows "field (forecasts w ! i) = slot_value e i @ suffix"
proof -
  have "forecasts w ! i = period_value (xs @ e # ys) i"
    using forecasts_nth(1) [OF assms(1) assms(6)] assms(2) by simp
  moreover have "last_named (elementName e) (xs @ e # ys) = Some e"
    using assms(5) by (rule last_named_decomp)
  ultimately show ?thesis
    using period_value_fields [of "xs @ e # ys" i] assms(3) by fastforce
qed

theorem duplicate_name_last_wins_witness:
  "ForecastNormalizer (ex_response [ex_duplicate]) ex_duplicate =
     (Inr (ex_normalized [ex_period ''06:00'' ''18:00'' ''Rainy'' ''10%'',
                          ex_period ''18:00'' ''06:00'' ''Windy'' ''30%''])
      :: nat js_error + NormalizedForecast) \<and>
   weatherElement ex_duplicate = [ex_Wx, ex_PoP] @ ex_Wx_late # [ex_UVI] \<and>
   (elementName ex_Wx_late, weather, []) \<in> set spec_mapping_table \<and>
   elementName ex_Wx = elementName ex_Wx_late \<and>
   elementName ex_UVI \<noteq> elementName ex_Wx_late \<and>
   slot_value ex_Wx 1 = ascii ''Cloudy'' \<and>
   slot_value ex_Wx_late 1 = ascii ''Windy'' \<and>
   weather (forecasts (ex_normalized [ex_period ''06:00'' ''18:00'' ''Rainy'' ''10%'',
                                      ex_period ''18:00'' ''06:00'' ''Windy'' ''30%'']) ! 1)
     = ascii ''Windy''"
proof -
  let ?w = "ex_normalized [ex_period ''06:00'' ''18:00'' ''Rainy'' ''10%'',
                           ex_period ''18:00'' ''06:00'' ''Windy'' ''30%'']"
  have h1: "ForecastNormalizer (ex_response [ex_duplicate]) ex_duplicate
      = (Inr ?w :: nat js_error + NormalizedForecast)"
    by (rule ex_duplicate_run)
  have h2: "weatherElement ex_duplicate = [ex_Wx, ex_PoP] @ ex_Wx_late # [ex_UVI]"
    by (simp add: ex_duplicate_def ex_location_def)
  have h3: "(elementName ex_Wx_late, weather, []) \<in> set spec_mapping_table"
    by (simp add: spec_mapping_table_def ex_Wx_late_def)
  have same: "elementName ex_Wx = elementName ex_Wx_late"
    by (simp add: ex_Wx_def ex_Wx_late_def)
  then have h4: "\<exists>x \<in> set [ex_Wx, ex_PoP]. elementName x = elementName ex_Wx_late"
    by simp
  have other: "elementName ex_UVI \<noteq> elementName ex_Wx_late"
    by (simp add: ex_UVI_def ex_Wx_late_def ascii_def)
  then have h5: "\<forall>y \<in> set [ex_UVI]. elementName y \<noteq> elementName ex_Wx_late"
    by simp
  have h6: "1 < length (forecasts ?w)"
    by (simp add: ex_normalized_def)
  have vals: "slot_value ex_Wx 1 = ascii ''Cloudy''" "slot_value ex_Wx_late 1 = ascii ''Windy''"
    by (simp_all add: slot_value_def ex_Wx_def ex_Wx_late_def slot_def)
  from duplicate_name_last_wins [OF h1 h2 h3 h4 h5 h6] vals
  have "weather (forecasts ?w ! 1) = ascii ''Windy''"
    by simp
  with h1 h2 h3 same other vals show ?thesis
    by blast
qed

end
